theory Spec2Isabelle
  imports Complex_Main "HOL-Library.Sublist" "HOL-Library.AList"
begin

section \<open>Values, errors and dates\<close>

text \<open>
  The analytical core of the stock research application lives in
  \<^verbatim>\<open>data/calculator.py\<close> and \<^verbatim>\<open>utils/stats.py\<close>.

  Conventions of the embedding:
  \<^item> a Python \<^verbatim>\<open>float\<close> is a \<^typ>\<open>real\<close>: rounding and infinite values are outside
    the model, while the \<^verbatim>\<open>OverflowError\<close> of \<^verbatim>\<open>**\<close> is a branch of it. The one
    NaN that the code produces structurally (pandas' standard deviation of a single
    sample, the first entry of \<^verbatim>\<open>pct_change\<close>, an empty resampling bin) is an explicit
    value;
  \<^item> a date (\<^verbatim>\<open>datetime\<close>, \<^verbatim>\<open>pd.Timestamp\<close>) is its proleptic Gregorian ordinal, as
    \<^verbatim>\<open>date.toordinal()\<close> gives it: day 1 is 0001-01-01, a Monday. The time of day plays
    no part in any computation of the core and is left out;
  \<^item> an exception is the left injection of a sum;
  \<^item> a dictionary is an association list in insertion order.
\<close>

type_synonym date = int

datatype py_error =
    KeyError string
  | ZeroDivisionError
  | OverflowError
  | ValueError

text \<open>Sequencing: a raised exception skips the rest of the function body.\<close>

definition and_then :: "py_error + 'a \<Rightarrow> ('a \<Rightarrow> py_error + 'b) \<Rightarrow> py_error + 'b" where
  "and_then r f = (case r of Inl e \<Rightarrow> Inl e | Inr v \<Rightarrow> f v)"

type_synonym 'v dict = "(string \<times> 'v) list"

definition getitem :: "'v dict \<Rightarrow> string \<Rightarrow> py_error + 'v" where
  "getitem d k = (case map_of d k of None \<Rightarrow> Inl (KeyError k) | Some v \<Rightarrow> Inr v)"

text \<open>\<^verbatim>\<open>datetime.weekday()\<close>: Monday is 0, Sunday is 6.\<close>

definition weekday :: "date \<Rightarrow> int" where
  "weekday d = (d + 6) mod 7"

text \<open>The bounds of \<^verbatim>\<open>datetime\<close> (9999-12-31) and of \<^verbatim>\<open>timedelta\<close>.\<close>

definition MAXORDINAL :: int where
  "MAXORDINAL = 3652059"

definition MAX_DELTA_DAYS :: int where
  "MAX_DELTA_DAYS = 999999999"

definition timedelta :: "int \<Rightarrow> py_error + int" where
  "timedelta days = (if \<bar>days\<bar> > MAX_DELTA_DAYS then Inl OverflowError else Inr days)"

definition datetime_add :: "date \<Rightarrow> int \<Rightarrow> py_error + date" where
  "datetime_add d delta =
     (if 0 < d + delta \<and> d + delta \<le> MAXORDINAL then Inr (d + delta) else Inl OverflowError)"

subsection \<open>The civil calendar, for \<^verbatim>\<open>strftime\<close> and calendar-year offsets\<close>

definition is_leap :: "int \<Rightarrow> bool" where
  "is_leap y = (y mod 4 = 0 \<and> (y mod 100 \<noteq> 0 \<or> y mod 400 = 0))"

definition days_in_month :: "int \<Rightarrow> int \<Rightarrow> int" where
  "days_in_month y m =
     (if m = 2 \<and> is_leap y then 29
      else [31, 28, 31, 30, 31, 30, 31, 31, 30, 31, 30, 31] ! nat (m - 1))"

definition days_before_year :: "int \<Rightarrow> int" where
  "days_before_year y = (y - 1) * 365 + (y - 1) div 4 - (y - 1) div 100 + (y - 1) div 400"

definition days_before_month :: "int \<Rightarrow> int \<Rightarrow> int" where
  "days_before_month y m = sum_list (map (days_in_month y) [1 .. m - 1])"

definition ymd2ord :: "int \<Rightarrow> int \<Rightarrow> int \<Rightarrow> date" where
  "ymd2ord y m d = days_before_year y + days_before_month y m + d"

text \<open>
  From an ordinal to (year, month, day): count whole 400-, 100-, 4- and 1-year cycles,
  then estimate the month from the day of the year and step back when the estimate is
  one too far.
\<close>

definition ord2ymd :: "date \<Rightarrow> int \<times> int \<times> int" where
  "ord2ymd ordinal =
     (let n0 = ordinal - 1;
          n400 = n0 div 146097; r400 = n0 mod 146097;
          n100 = r400 div 36524; r100 = r400 mod 36524;
          n4 = r100 div 1461; r4 = r100 mod 1461;
          n1 = r4 div 365; n = r4 mod 365;
          year = n400 * 400 + 1 + n100 * 100 + n4 * 4 + n1
      in if n1 = 4 \<or> n100 = 4 then (year - 1, 12, 31)
         else
           let month = (n + 50) div 32;
               preceding = days_before_month year month
           in if preceding > n
              then (year, month - 1, n - (preceding - days_in_month year (month - 1)) + 1)
              else (year, month, n - preceding + 1))"

definition month_name :: "int \<Rightarrow> string" where
  "month_name m =
     [''January'', ''February'', ''March'', ''April'', ''May'', ''June'', ''July'',
      ''August'', ''September'', ''October'', ''November'', ''December''] ! nat (m - 1)"

definition digit :: "nat \<Rightarrow> char" where
  "digit n = ''0123456789'' ! n"

fun decimal :: "nat \<Rightarrow> string" where
  "decimal n = (if n < 10 then [digit n] else decimal (n div 10) @ [digit (n mod 10)])"

declare decimal.simps [simp del]

text \<open>\<^verbatim>\<open>strftime('%B %d, %Y')\<close>: month name, two-digit day, year.\<close>

definition strftime_B_d_Y :: "date \<Rightarrow> string" where
  "strftime_B_d_Y t =
     (case ord2ymd t of (y, m, d) \<Rightarrow>
        month_name m @ '' '' @ [digit (nat d div 10), digit (nat d mod 10)] @ '', '' @ decimal (nat y))"

section \<open>Price projector\<close>

text \<open>
  The dictionary returned by \<^verbatim>\<open>predict_future_week_price\<close> has a fixed set of keys; the
  empty dictionary \<^verbatim>\<open>{}\<close> of the early return is \<^const>\<open>None\<close>.
\<close>

record projection =
  current_price :: real
  expected_price :: real
  optimistic_price :: real
  pessimistic_price :: real
  expected_change :: real
  optimistic_change :: real
  pessimistic_change :: real
  weeks_ahead :: int
  target_date :: date
  target_date_str :: string
  weekly_avg_return :: real
  weekly_max_return :: real
  weekly_min_return :: real

text \<open>Python's true division of floats raises on a zero divisor.\<close>

definition truediv :: "real \<Rightarrow> real \<Rightarrow> py_error + real" where
  "truediv a b = (if b = 0 then Inl ZeroDivisionError else Inr (a / b))"

text \<open>
  \<^verbatim>\<open>float ** int\<close> is the one float operation of the projector that raises on
  overflow: CPython turns an infinite result of \<^verbatim>\<open>pow\<close> on finite operands into
  \<^verbatim>\<open>OverflowError\<close>, where products, sums and quotients silently give \<^verbatim>\<open>inf\<close>. A
  result rounds to infinity from \<open>2 ^ 1024 - 2 ^ 970\<close> on, half an ulp above the largest
  double. A zero base with a negative exponent raises \<^verbatim>\<open>ZeroDivisionError\<close>. The
  exponent is converted to a double first; where the projector calls \<^verbatim>\<open>**\<close> the
  exponent has passed through \<^verbatim>\<open>timedelta\<close>, so that the conversion is exact.
\<close>

definition FLOAT_OVERFLOW :: real where
  "FLOAT_OVERFLOW = 2 ^ 1024 - 2 ^ 970"

definition float_pow :: "real \<Rightarrow> int \<Rightarrow> py_error + real" where
  "float_pow x n =
     (if n < 0 \<and> x = 0 then Inl ZeroDivisionError
      else
        let y = (if 0 \<le> n then x ^ nat n else 1 / x ^ nat (- n))
        in if FLOAT_OVERFLOW \<le> \<bar>y\<bar> then Inl OverflowError else Inr y)"

text \<open>
  The wall-clock date read by \<^verbatim>\<open>datetime.now()\<close> is the parameter \<open>today\<close>. The
  statements run in the order of the source, so the first exception wins. The record
  selectors carry the names of the dictionary keys, so the local variables of the same
  name are primed.
\<close>

definition predict_future_week_price ::
  "date \<Rightarrow> real \<Rightarrow> real dict \<Rightarrow> int \<Rightarrow> py_error + projection option" where
  "predict_future_week_price today current_price' stats weeks_ahead' =
    (if stats = [] \<or> map_of stats ''average'' = None \<or> weeks_ahead' < 1 then Inr None
     else
       let days_to_add = weeks_ahead' * 7 in
       and_then (timedelta days_to_add) (\<lambda>delta.
       and_then (datetime_add today delta) (\<lambda>target0.
       let days_until_friday = (4 - weekday target0) mod 7 in
       and_then (if days_until_friday > 0 then datetime_add target0 days_until_friday
                 else Inr target0) (\<lambda>target_date'.
       and_then (getitem stats ''average'') (\<lambda>average.
       and_then (float_pow (1 + average / 100) weeks_ahead') (\<lambda>expected_growth.
       let expected_price' = current_price' * expected_growth in
       and_then (getitem stats ''maximum'') (\<lambda>maximum.
       and_then (float_pow (1 + maximum / 100) weeks_ahead') (\<lambda>optimistic_growth.
       let optimistic_price' = current_price' * optimistic_growth in
       and_then (getitem stats ''minimum'') (\<lambda>minimum.
       and_then (float_pow (1 + minimum / 100) weeks_ahead') (\<lambda>pessimistic_growth.
       let pessimistic_price' = current_price' * pessimistic_growth in
       and_then (truediv expected_price' current_price') (\<lambda>qe.
       let expected_total_change = (qe - 1) * 100 in
       and_then (truediv optimistic_price' current_price') (\<lambda>qo.
       let optimistic_total_change = (qo - 1) * 100 in
       and_then (truediv pessimistic_price' current_price') (\<lambda>qp.
       let pessimistic_total_change = (qp - 1) * 100 in
       Inr (Some \<lparr>
         current_price = current_price',
         expected_price = expected_price',
         optimistic_price = optimistic_price',
         pessimistic_price = pessimistic_price',
         expected_change = expected_total_change,
         optimistic_change = optimistic_total_change,
         pessimistic_change = pessimistic_total_change,
         weeks_ahead = weeks_ahead',
         target_date = target_date',
         target_date_str = strftime_B_d_Y target_date',
         weekly_avg_return = average,
         weekly_max_return = maximum,
         weekly_min_return = minimum \<rparr>))))))))))))))"

definition predict_current_week_price ::
  "date \<Rightarrow> real \<Rightarrow> real dict \<Rightarrow> py_error + projection option" where
  "predict_current_week_price today current_price' stats =
     predict_future_week_price today current_price' stats 1"

section \<open>Statistics engine\<close>

text \<open>
  The values of the statistics dictionary are floats, an integer count and, once
  \<^verbatim>\<open>calculate_multi_timeframe_stats\<close> has augmented it, timestamps. \<open>NaN\<close> is what pandas
  gives for the standard deviation of fewer than two samples.
\<close>

datatype pyval = Float real | NaN | Integer int | Timestamp date

text \<open>\<^verbatim>\<open>Series.min()\<close> and \<^verbatim>\<open>Series.max()\<close> of a series that is not empty.\<close>

definition series_min :: "'a::linorder list \<Rightarrow> 'a" where
  "series_min xs = fold min (tl xs) (hd xs)"

definition series_max :: "'a::linorder list \<Rightarrow> 'a" where
  "series_max xs = fold max (tl xs) (hd xs)"

definition mean :: "real list \<Rightarrow> real" where
  "mean xs = sum_list xs / real (length xs)"

text \<open>\<^verbatim>\<open>Series.std()\<close> has one delta degree of freedom.\<close>

definition std :: "real list \<Rightarrow> pyval" where
  "std xs =
     (if length xs < 2 then NaN
      else Float (sqrt (sum_list (map (\<lambda>x. (x - mean xs) ^ 2) xs) / real (length xs - 1))))"

definition calculate_statistics :: "real list \<Rightarrow> pyval dict" where
  "calculate_statistics returns =
     (if returns = [] then []
      else [(''average'', Float (mean returns)),
            (''minimum'', Float (series_min returns)),
            (''maximum'', Float (series_max returns)),
            (''std_dev'', std returns),
            (''count'', Integer (int (length returns)))])"

section \<open>Timeframe slicer\<close>

text \<open>
  Of the data frame only the index and the column \<^verbatim>\<open>Close\<close> are read: a frame is the list
  of its rows \<open>(date, close)\<close>, in the order of the frame, and it is \<^verbatim>\<open>empty\<close> when it
  has no row.

  \<^verbatim>\<open>latest_date - pd.DateOffset(years=years)\<close> belongs to pandas and dateutil; which
  timestamps it can represent, and so when it raises, depends on their version. The
  slicer takes it as the parameter \<open>date_offset\<close>, and what is proved of the slicer holds
  for every such function. \<open>sub_years\<close> is the calendar rule: the same month and day
  \<open>years\<close> years earlier, the day clipped to the length of the month, and a year that
  \<^verbatim>\<open>datetime\<close> can hold.
\<close>

type_synonym frame = "(date \<times> real) list"

type_synonym date_offset = "date \<Rightarrow> int \<Rightarrow> py_error + date"

definition sub_years :: date_offset where
  "sub_years t years =
     (case ord2ymd t of (y, m, d) \<Rightarrow>
        let year = y - years in
        if year < 1 \<or> 9999 < year then Inl ValueError
        else Inr (ymd2ord year m (min d (days_in_month year m))))"

definition get_timeframe_data :: "date_offset \<Rightarrow> frame \<Rightarrow> int option \<Rightarrow> py_error + frame" where
  "get_timeframe_data date_offset full_data years =
     (if full_data = [] then Inr []
      else case years of
        None \<Rightarrow> Inr full_data
      | Some years' \<Rightarrow>
          let latest_date = series_max (map fst full_data) in
          and_then (date_offset latest_date years') (\<lambda>start_date.
          Inr (filter (\<lambda>(d, c). start_date \<le> d) full_data)))"

section \<open>Weekly return calculator\<close>

text \<open>
  \<^verbatim>\<open>resample('W-FRI', label='right', closed='right')\<close> groups the rows into weeks that end
  on a Friday and labels a week by that Friday: a row of date \<open>d\<close> falls into the week
  \<open>week_end d\<close>. There is one bin for every Friday from the week of the earliest row
  to the week of the latest one, also for a week without any row, whose \<^verbatim>\<open>last()\<close> is NaN
  (\<^const>\<open>None\<close>). The rows are grouped in the order of their dates (pandas sorts an index
  that is not sorted, stably).
\<close>

definition week_end :: "date \<Rightarrow> date" where
  "week_end d = d + (4 - weekday d) mod 7"

definition bin_labels :: "frame \<Rightarrow> date list" where
  "bin_labels rows =
     (let first = week_end (fst (hd rows));
          last' = week_end (fst (last rows))
      in map (\<lambda>k. first + 7 * int k) [0 ..< nat ((last' - first) div 7) + 1])"

definition last_in_bin :: "frame \<Rightarrow> date \<Rightarrow> real option" where
  "last_in_bin rows b =
     (case filter (\<lambda>(d, c). week_end d = b) rows of
        [] \<Rightarrow> None
      | r # rs \<Rightarrow> Some (snd (last (r # rs))))"

definition resample_W_FRI_last :: "frame \<Rightarrow> (date \<times> real option) list" where
  "resample_W_FRI_last data =
     (let rows = sort_key fst data
      in map (\<lambda>b. (b, last_in_bin rows b)) (bin_labels rows))"

text \<open>
  \<^verbatim>\<open>pct_change()\<close> divides every entry by the one before it and subtracts 1; the first
  entry has none before it and is NaN. Up to pandas 2 the NaN entries are first filled
  with the last value before them (\<^verbatim>\<open>fill_method='pad'\<close>), from pandas 3 on they are
  left as they are; \<open>pad\<close> says which. A quotient of two zeros is NaN. A quotient
  of a non-zero close by a zero close is infinite in pandas and has no counterpart in
  \<^typ>\<open>real\<close>: the model is exact on frames without a zero close.
\<close>

fun ffill :: "real option \<Rightarrow> (date \<times> real option) list \<Rightarrow> (date \<times> real option) list" where
  "ffill prev [] = []"
| "ffill prev ((d, None) # xs) = (d, prev) # ffill prev xs"
| "ffill prev ((d, Some c) # xs) = (d, Some c) # ffill (Some c) xs"

definition change :: "real option \<Rightarrow> real option \<Rightarrow> real option" where
  "change prev cur =
     (case (prev, cur) of
        (Some p, Some c) \<Rightarrow> if p = 0 \<and> c = 0 then None else Some (c / p - 1)
      | _ \<Rightarrow> None)"

fun shifted_change :: "real option \<Rightarrow> (date \<times> real option) list \<Rightarrow> (date \<times> real option) list" where
  "shifted_change prev [] = []"
| "shifted_change prev ((d, v) # xs) = (d, change prev v) # shifted_change v xs"

definition pct_change :: "bool \<Rightarrow> (date \<times> real option) list \<Rightarrow> (date \<times> real option) list" where
  "pct_change pad xs = shifted_change None (if pad then ffill None xs else xs)"

definition dropna :: "(date \<times> real option) list \<Rightarrow> (date \<times> real) list" where
  "dropna xs = List.map_filter (\<lambda>(d, v). map_option (\<lambda>x. (d, x)) v) xs"

definition calculate_weekly_returns :: "bool \<Rightarrow> frame \<Rightarrow> (date \<times> real) list" where
  "calculate_weekly_returns pad data =
     (if data = [] then []
      else
        let weekly_data = resample_W_FRI_last data;
            weekly_returns = map (\<lambda>(d, r). (d, r * 100)) (dropna (pct_change pad weekly_data))
        in weekly_returns)"

section \<open>Statistics over several timeframes\<close>

definition timeframes :: "(string \<times> int option) list" where
  "timeframes = [(''max'', None), (''10yr'', Some 10), (''5yr'', Some 5), (''3yr'', Some 3),
     (''1yr'', Some 1)]"

text \<open>
  One round of the loop: \<^verbatim>\<open>continue\<close> leaves the results as they are. Assigning
  \<^verbatim>\<open>results[period_name]\<close> appends a new key and keeps the place of an old one, as
  \<^const>\<open>AList.update\<close> does.
\<close>

definition timeframe_round ::
  "date_offset \<Rightarrow> bool \<Rightarrow> frame \<Rightarrow> string \<times> int option \<Rightarrow> (pyval dict) dict \<Rightarrow>
     py_error + (pyval dict) dict" where
  "timeframe_round date_offset pad full_data tf results =
     (case tf of (period_name, years) \<Rightarrow>
        and_then (get_timeframe_data date_offset full_data years) (\<lambda>period_data.
        if period_data = [] then Inr results
        else
          let weekly_returns = calculate_weekly_returns pad period_data in
          if weekly_returns = [] then Inr results
          else
            let stats = calculate_statistics (map snd weekly_returns);
                stats' =
                  (if stats \<noteq> [] then
                     AList.update ''years_of_data'' (Float (real (length period_data) / 252))
                       (AList.update ''data_end'' (Timestamp (series_max (map fst period_data)))
                         (AList.update ''data_start''
                            (Timestamp (series_min (map fst period_data))) stats))
                   else stats)
            in Inr (AList.update period_name stats' results)))"

fun timeframe_loop ::
  "date_offset \<Rightarrow> bool \<Rightarrow> frame \<Rightarrow> (string \<times> int option) list \<Rightarrow> (pyval dict) dict \<Rightarrow>
     py_error + (pyval dict) dict" where
  "timeframe_loop date_offset pad full_data [] results = Inr results"
| "timeframe_loop date_offset pad full_data (tf # tfs) results =
     and_then (timeframe_round date_offset pad full_data tf results)
       (timeframe_loop date_offset pad full_data tfs)"

definition calculate_multi_timeframe_stats ::
  "date_offset \<Rightarrow> bool \<Rightarrow> frame \<Rightarrow> py_error + (pyval dict) dict" where
  "calculate_multi_timeframe_stats date_offset pad full_data =
     timeframe_loop date_offset pad full_data timeframes []"

section \<open>Properties of the price projector\<close>

subsection \<open>Helper lemmas\<close>

lemma weekday_next_friday: "weekday (t + (4 - weekday t) mod 7) = 4"
  unfolding weekday_def by presburger

lemma next_friday_bounds: "0 \<le> (4 - weekday t) mod 7 \<and> (4 - weekday t) mod 7 < 7"
  by simp

text \<open>No power of a growth factor up to 2 overflows within a thousand weeks.\<close>

lemma float_pow_in_range:
  assumes "\<bar>x\<bar> \<le> 2" and "n \<le> 1000"
  shows "\<bar>x ^ n\<bar> < FLOAT_OVERFLOW"
proof -
  have "\<bar>x ^ n\<bar> = \<bar>x\<bar> ^ n"
    by (simp add: power_abs)
  also have "\<dots> \<le> 2 ^ n"
    using assms(1) by (intro power_mono) simp_all
  also have "\<dots> \<le> (2::real) ^ 1000"
    using assms(2) by (intro power_increasing) simp_all
  also have "\<dots> < 10 ^ 302"
    by simp
  also have "\<dots> < FLOAT_OVERFLOW"
    unfolding FLOAT_OVERFLOW_def by simp
  finally show ?thesis .
qed

lemma float_pow_positive:
  "1 \<le> n \<Longrightarrow> float_pow x n =
     (if FLOAT_OVERFLOW \<le> \<bar>x ^ nat n\<bar> then Inl OverflowError else Inr (x ^ nat n))"
  unfolding float_pow_def Let_def by simp

text \<open>
  The body of the projector after the guard, with the date arithmetic done: what remains
  are the three lookups, the three powers and the three divisions, in this order.
\<close>

lemma predict_after_dates:
  assumes "1 \<le> w" "map_of stats ''average'' \<noteq> None" "0 < today"
    "today + w * 7 + (4 - weekday (today + w * 7)) mod 7 \<le> MAXORDINAL"
  shows "predict_future_week_price today cp stats w =
    and_then (getitem stats ''average'') (\<lambda>average.
    and_then (float_pow (1 + average / 100) w) (\<lambda>ge.
    and_then (getitem stats ''maximum'') (\<lambda>maximum.
    and_then (float_pow (1 + maximum / 100) w) (\<lambda>go.
    and_then (getitem stats ''minimum'') (\<lambda>minimum.
    and_then (float_pow (1 + minimum / 100) w) (\<lambda>gp.
    and_then (truediv (cp * ge) cp) (\<lambda>qe.
    and_then (truediv (cp * go) cp) (\<lambda>qo.
    and_then (truediv (cp * gp) cp) (\<lambda>qp.
    Inr (Some \<lparr>
      current_price = cp,
      expected_price = cp * ge,
      optimistic_price = cp * go,
      pessimistic_price = cp * gp,
      expected_change = (qe - 1) * 100,
      optimistic_change = (qo - 1) * 100,
      pessimistic_change = (qp - 1) * 100,
      weeks_ahead = w,
      target_date = today + w * 7 + (4 - weekday (today + w * 7)) mod 7,
      target_date_str = strftime_B_d_Y (today + w * 7 + (4 - weekday (today + w * 7)) mod 7),
      weekly_avg_return = average,
      weekly_max_return = maximum,
      weekly_min_return = minimum \<rparr>))))))))))"
proof -
  have b: "0 \<le> (4 - weekday (today + w * 7)) mod 7" "(4 - weekday (today + w * 7)) mod 7 < 7"
    by simp_all
  have ne: "stats \<noteq> []" using assms(2) by auto
  have g: "\<not> (stats = [] \<or> map_of stats ''average'' = None \<or> w < 1)"
    using assms(1,2) ne by simp
  have td: "timedelta (w * 7) = Inr (w * 7)"
    using assms(1,3,4) b unfolding timedelta_def MAX_DELTA_DAYS_def MAXORDINAL_def by simp
  have d1: "datetime_add today (w * 7) = Inr (today + w * 7)"
    using assms(1,3,4) b unfolding datetime_add_def by simp
  have d2: "(if (4 - weekday (today + w * 7)) mod 7 > 0
             then datetime_add (today + w * 7) ((4 - weekday (today + w * 7)) mod 7)
             else Inr (today + w * 7))
            = Inr (today + w * 7 + (4 - weekday (today + w * 7)) mod 7)"
    using assms(1,3,4) b unfolding datetime_add_def by auto
  show ?thesis
    unfolding predict_future_week_price_def if_not_P [OF g] Let_def td
    by (simp add: and_then_def d1 d2 del: mod_pos_pos_trivial)
qed


text \<open>When nothing can raise, the record is returned.\<close>

lemma predict_total:
  assumes "1 \<le> w" "cp \<noteq> 0" "0 < today"
    "today + w * 7 + (4 - weekday (today + w * 7)) mod 7 \<le> MAXORDINAL"
    "map_of stats ''average'' = Some a" "map_of stats ''maximum'' = Some mx"
    "map_of stats ''minimum'' = Some mn"
    "\<bar>(1 + a / 100) ^ nat w\<bar> < FLOAT_OVERFLOW"
    "\<bar>(1 + mx / 100) ^ nat w\<bar> < FLOAT_OVERFLOW"
    "\<bar>(1 + mn / 100) ^ nat w\<bar> < FLOAT_OVERFLOW"
  shows "predict_future_week_price today cp stats w =
    Inr (Some \<lparr>
      current_price = cp,
      expected_price = cp * (1 + a / 100) ^ nat w,
      optimistic_price = cp * (1 + mx / 100) ^ nat w,
      pessimistic_price = cp * (1 + mn / 100) ^ nat w,
      expected_change = ((cp * (1 + a / 100) ^ nat w) / cp - 1) * 100,
      optimistic_change = ((cp * (1 + mx / 100) ^ nat w) / cp - 1) * 100,
      pessimistic_change = ((cp * (1 + mn / 100) ^ nat w) / cp - 1) * 100,
      weeks_ahead = w,
      target_date = today + w * 7 + (4 - weekday (today + w * 7)) mod 7,
      target_date_str = strftime_B_d_Y (today + w * 7 + (4 - weekday (today + w * 7)) mod 7),
      weekly_avg_return = a,
      weekly_max_return = mx,
      weekly_min_return = mn \<rparr>)"
proof -
  have ne: "map_of stats ''average'' \<noteq> None" using assms(5) by simp
  have no: "\<not> FLOAT_OVERFLOW \<le> \<bar>(1 + a / 100) ^ nat w\<bar>"
    "\<not> FLOAT_OVERFLOW \<le> \<bar>(1 + mx / 100) ^ nat w\<bar>"
    "\<not> FLOAT_OVERFLOW \<le> \<bar>(1 + mn / 100) ^ nat w\<bar>"
    using assms(8,9,10) by simp_all
  show ?thesis
    unfolding predict_after_dates [OF assms(1) ne assms(3,4)] float_pow_positive [OF assms(1)]
      getitem_def assms(5,6,7) and_then_def truediv_def
    using no assms(2) by simp
qed

text \<open>The guard of the early return.\<close>

lemma predict_guard:
  "w < 1 \<or> map_of stats ''average'' = None \<Longrightarrow>
     predict_future_week_price today cp stats w = Inr None"
  unfolding predict_future_week_price_def by auto

text \<open>The exceptions of the three lookups and the three powers, in the order of the source.\<close>

lemma predict_average_overflow:
  assumes "1 \<le> w" "0 < today"
    "today + w * 7 + (4 - weekday (today + w * 7)) mod 7 \<le> MAXORDINAL"
    "map_of stats ''average'' = Some a"
    "FLOAT_OVERFLOW \<le> \<bar>(1 + a / 100) ^ nat w\<bar>"
  shows "predict_future_week_price today cp stats w = Inl OverflowError"
proof -
  have ne: "map_of stats ''average'' \<noteq> None" using assms(4) by simp
  show ?thesis
    unfolding predict_after_dates [OF assms(1) ne assms(2,3)] float_pow_positive [OF assms(1)]
      getitem_def assms(4) and_then_def
    using assms(5) by simp
qed

lemma predict_missing_maximum:
  assumes "1 \<le> w" "0 < today"
    "today + w * 7 + (4 - weekday (today + w * 7)) mod 7 \<le> MAXORDINAL"
    "map_of stats ''average'' = Some a" "\<bar>(1 + a / 100) ^ nat w\<bar> < FLOAT_OVERFLOW"
    "map_of stats ''maximum'' = None"
  shows "predict_future_week_price today cp stats w = Inl (KeyError ''maximum'')"
proof -
  have ne: "map_of stats ''average'' \<noteq> None" using assms(4) by simp
  have no: "\<not> FLOAT_OVERFLOW \<le> \<bar>(1 + a / 100) ^ nat w\<bar>"
    using assms(5) by simp
  show ?thesis
    unfolding predict_after_dates [OF assms(1) ne assms(2,3)] float_pow_positive [OF assms(1)]
      getitem_def assms(4,6) and_then_def
    using no by simp
qed

lemma predict_missing_minimum:
  assumes "1 \<le> w" "0 < today"
    "today + w * 7 + (4 - weekday (today + w * 7)) mod 7 \<le> MAXORDINAL"
    "map_of stats ''average'' = Some a" "\<bar>(1 + a / 100) ^ nat w\<bar> < FLOAT_OVERFLOW"
    "map_of stats ''maximum'' = Some mx" "\<bar>(1 + mx / 100) ^ nat w\<bar> < FLOAT_OVERFLOW"
    "map_of stats ''minimum'' = None"
  shows "predict_future_week_price today cp stats w = Inl (KeyError ''minimum'')"
proof -
  have ne: "map_of stats ''average'' \<noteq> None" using assms(4) by simp
  have no: "\<not> FLOAT_OVERFLOW \<le> \<bar>(1 + a / 100) ^ nat w\<bar>"
    "\<not> FLOAT_OVERFLOW \<le> \<bar>(1 + mx / 100) ^ nat w\<bar>"
    using assms(5,7) by simp_all
  show ?thesis
    unfolding predict_after_dates [OF assms(1) ne assms(2,3)] float_pow_positive [OF assms(1)]
      getitem_def assms(4,6,8) and_then_def
    using no by simp
qed

lemma predict_zero_price:
  assumes "1 \<le> w" "0 < today"
    "today + w * 7 + (4 - weekday (today + w * 7)) mod 7 \<le> MAXORDINAL"
    "map_of stats ''average'' = Some a" "map_of stats ''maximum'' = Some mx"
    "map_of stats ''minimum'' = Some mn"
    "\<bar>(1 + a / 100) ^ nat w\<bar> < FLOAT_OVERFLOW"
    "\<bar>(1 + mx / 100) ^ nat w\<bar> < FLOAT_OVERFLOW"
    "\<bar>(1 + mn / 100) ^ nat w\<bar> < FLOAT_OVERFLOW"
  shows "predict_future_week_price today 0 stats w = Inl ZeroDivisionError"
proof -
  have ne: "map_of stats ''average'' \<noteq> None" using assms(4) by simp
  have no: "\<not> FLOAT_OVERFLOW \<le> \<bar>(1 + a / 100) ^ nat w\<bar>"
    "\<not> FLOAT_OVERFLOW \<le> \<bar>(1 + mx / 100) ^ nat w\<bar>"
    "\<not> FLOAT_OVERFLOW \<le> \<bar>(1 + mn / 100) ^ nat w\<bar>"
    using assms(7,8,9) by simp_all
  show ?thesis
    unfolding predict_after_dates [OF assms(1) ne assms(2,3)] float_pow_positive [OF assms(1)]
      getitem_def assms(4,5,6) and_then_def truediv_def
    using no by simp
qed

lemma predict_date_overflow:
  assumes "1 \<le> w" "map_of stats ''average'' \<noteq> None"
    "MAXORDINAL < today + w * 7 + (4 - weekday (today + w * 7)) mod 7"
  shows "predict_future_week_price today cp stats w = Inl OverflowError"
proof -
  have b: "0 \<le> (4 - weekday (today + w * 7)) mod 7" "(4 - weekday (today + w * 7)) mod 7 < 7"
    by simp_all
  have ne: "stats \<noteq> []" using assms(2) by auto
  show ?thesis
    using assms b ne
    unfolding predict_future_week_price_def and_then_def timedelta_def datetime_add_def Let_def
    by (auto split: if_splits sum.splits)
qed

subsection \<open>Concrete runs\<close>

text \<open>
  Wednesday 2026-11-04 is day 739924. Four weeks ahead the target is Friday 2026-12-04, one
  week ahead it is Friday 2026-11-13.
\<close>

lemma strftime_739954: "strftime_B_d_Y 739954 = ''December 04, 2026''"
  unfolding strftime_B_d_Y_def ord2ymd_def days_before_month_def days_in_month_def is_leap_def
    month_name_def Let_def
  by (simp add: digit_def upto.simps decimal.simps [of 2026] decimal.simps [of 202]
      decimal.simps [of 20] decimal.simps [of 2])

lemma strftime_739933: "strftime_B_d_Y 739933 = ''November 13, 2026''"
  unfolding strftime_B_d_Y_def ord2ymd_def days_before_month_def days_in_month_def is_leap_def
    month_name_def Let_def
  by (simp add: digit_def upto.simps decimal.simps [of 2026] decimal.simps [of 202]
      decimal.simps [of 20] decimal.simps [of 2])

lemma predict_run_4_weeks:
  "predict_future_week_price 739924 100 [(''average'', 2), (''minimum'', -5), (''maximum'', 7)] 4 =
     Inr (Some \<lparr> current_price = 100, expected_price = 108.243216, optimistic_price = 131.079601,
       pessimistic_price = 81.450625, expected_change = 8.243216, optimistic_change = 31.079601,
       pessimistic_change = -18.549375, weeks_ahead = 4, target_date = 739954,
       target_date_str = ''December 04, 2026'', weekly_avg_return = 2, weekly_max_return = 7,
       weekly_min_return = -5 \<rparr>)"
proof -
  have "predict_future_week_price 739924 100
          [(''average'', 2), (''minimum'', -5), (''maximum'', 7)] 4 = Inr (Some \<lparr>
      current_price = 100,
      expected_price = 100 * (1 + 2 / 100) ^ nat 4,
      optimistic_price = 100 * (1 + 7 / 100) ^ nat 4,
      pessimistic_price = 100 * (1 + (- 5) / 100) ^ nat 4,
      expected_change = ((100 * (1 + 2 / 100) ^ nat 4) / 100 - 1) * 100,
      optimistic_change = ((100 * (1 + 7 / 100) ^ nat 4) / 100 - 1) * 100,
      pessimistic_change = ((100 * (1 + (- 5) / 100) ^ nat 4) / 100 - 1) * 100,
      weeks_ahead = 4,
      target_date = 739924 + 4 * 7 + (4 - weekday (739924 + 4 * 7)) mod 7,
      target_date_str = strftime_B_d_Y (739924 + 4 * 7 + (4 - weekday (739924 + 4 * 7)) mod 7),
      weekly_avg_return = 2,
      weekly_max_return = 7,
      weekly_min_return = - 5 \<rparr>)"
    by (rule predict_total; (rule float_pow_in_range)?; simp add: weekday_def MAXORDINAL_def)
  then show ?thesis
    by (simp add: weekday_def strftime_739954 eval_nat_numeral)
qed

lemma predict_run_1_week:
  "predict_future_week_price 739924 100 [(''average'', 2), (''minimum'', -5), (''maximum'', 7)] 1 =
     Inr (Some \<lparr> current_price = 100, expected_price = 102, optimistic_price = 107,
       pessimistic_price = 95, expected_change = 2, optimistic_change = 7,
       pessimistic_change = -5, weeks_ahead = 1, target_date = 739933,
       target_date_str = ''November 13, 2026'', weekly_avg_return = 2, weekly_max_return = 7,
       weekly_min_return = -5 \<rparr>)"
proof -
  have "predict_future_week_price 739924 100
          [(''average'', 2), (''minimum'', -5), (''maximum'', 7)] 1 = Inr (Some \<lparr>
      current_price = 100,
      expected_price = 100 * (1 + 2 / 100) ^ nat 1,
      optimistic_price = 100 * (1 + 7 / 100) ^ nat 1,
      pessimistic_price = 100 * (1 + (- 5) / 100) ^ nat 1,
      expected_change = ((100 * (1 + 2 / 100) ^ nat 1) / 100 - 1) * 100,
      optimistic_change = ((100 * (1 + 7 / 100) ^ nat 1) / 100 - 1) * 100,
      pessimistic_change = ((100 * (1 + (- 5) / 100) ^ nat 1) / 100 - 1) * 100,
      weeks_ahead = 1,
      target_date = 739924 + 1 * 7 + (4 - weekday (739924 + 1 * 7)) mod 7,
      target_date_str = strftime_B_d_Y (739924 + 1 * 7 + (4 - weekday (739924 + 1 * 7)) mod 7),
      weekly_avg_return = 2,
      weekly_max_return = 7,
      weekly_min_return = - 5 \<rparr>)"
    by (rule predict_total; (rule float_pow_in_range)?; simp add: weekday_def MAXORDINAL_def)
  then show ?thesis
    by (simp add: weekday_def strftime_739933)
qed

subsection \<open>Compounding law\<close>

text \<open>
  Claim C1, amended. For a current price other than zero, a statistics record that holds
  \<open>average\<close>, \<open>maximum\<close> and \<open>minimum\<close>, \<open>weeks_ahead \<ge> 1\<close>, a target date that
  \<^verbatim>\<open>datetime\<close> can represent and three growth factors that do not overflow,
  \<^const>\<open>predict_future_week_price\<close> returns a projection; its expected price is
  \<open>current_price * (1 + average / 100) ^ weeks_ahead\<close>, and its expected change is
  \<open>(expected_price / current_price - 1) * 100\<close>, which is the compounded total
  \<open>((1 + average / 100) ^ weeks_ahead - 1) * 100\<close> over the horizon.
\<close>

theorem C1_compounding_law:
  assumes "1 \<le> w" and "cp \<noteq> 0" and "0 < today"
    and "today + w * 7 + (4 - weekday (today + w * 7)) mod 7 \<le> MAXORDINAL"
    and "map_of stats ''average'' = Some a"
    and "map_of stats ''maximum'' = Some mx"
    and "map_of stats ''minimum'' = Some mn"
    and "\<bar>(1 + a / 100) ^ nat w\<bar> < FLOAT_OVERFLOW"
    and "\<bar>(1 + mx / 100) ^ nat w\<bar> < FLOAT_OVERFLOW"
    and "\<bar>(1 + mn / 100) ^ nat w\<bar> < FLOAT_OVERFLOW"
  shows "\<exists>r. predict_future_week_price today cp stats w = Inr (Some r) \<and>
           expected_price r = cp * (1 + a / 100) ^ nat w \<and>
           expected_change r = ((expected_price r / cp) - 1) * 100 \<and>
           expected_change r = ((1 + a / 100) ^ nat w - 1) * 100"
  using predict_total [OF assms] assms(2) by simp

theorem C1_compounding_law_witness:
  "\<exists>r. predict_future_week_price 739924 100
          [(''average'', 2), (''minimum'', -5), (''maximum'', 7)] 4 = Inr (Some r) \<and>
       expected_price r = 108.243216 \<and> expected_change r = 8.243216 \<and>
       expected_price r \<noteq> 100 * (1 + 2 * 4 / 100)"
proof -
  have "\<exists>r. predict_future_week_price 739924 100
          [(''average'', 2), (''minimum'', -5), (''maximum'', 7)] 4 = Inr (Some r) \<and>
           expected_price r = 100 * (1 + 2 / 100) ^ nat 4 \<and>
           expected_change r = ((expected_price r / 100) - 1) * 100 \<and>
           expected_change r = ((1 + 2 / 100) ^ nat 4 - 1) * 100"
    by (rule C1_compounding_law [where mx = 7 and mn = "- 5"]; (rule float_pow_in_range)?;
        simp add: weekday_def MAXORDINAL_def)
  then show ?thesis
    by (auto simp add: eval_nat_numeral)
qed

text \<open>
  The claim as stated, for every current price and every record that holds \<open>average\<close>,
  fails where no projection comes back: a current price of zero raises
  \<^verbatim>\<open>ZeroDivisionError\<close>, and a record that holds \<open>average\<close> alone raises \<^verbatim>\<open>KeyError\<close>.
\<close>

theorem C1_no_projection_counterexample:
  "map_of [(''average'', 2::real), (''minimum'', -5), (''maximum'', 7)] ''average'' = Some 2 \<and>
   predict_future_week_price 739924 0 [(''average'', 2), (''minimum'', -5), (''maximum'', 7)] 4
     = Inl ZeroDivisionError \<and>
   map_of [(''average'', 2::real)] ''average'' = Some 2 \<and>
   predict_future_week_price 739924 100 [(''average'', 2)] 4 = Inl (KeyError ''maximum'')"
proof -
  have "predict_future_week_price 739924 0
          [(''average'', 2), (''minimum'', -5), (''maximum'', 7)] 4 = Inl ZeroDivisionError"
    by (rule predict_zero_price [where a = 2 and mx = 7 and mn = "- 5"];
        (rule float_pow_in_range)?; simp add: weekday_def MAXORDINAL_def)
  moreover have "predict_future_week_price 739924 100 [(''average'', 2)] 4
      = Inl (KeyError ''maximum'')"
    by (rule predict_missing_maximum [where a = 2]; (rule float_pow_in_range)?;
        simp add: weekday_def MAXORDINAL_def)
  ultimately show ?thesis by simp
qed

subsection \<open>Early return and exceptions\<close>

text \<open>
  Claim C3, amended. The projector returns the empty result, without raising, when
  \<open>weeks_ahead < 1\<close> or the statistics record has no \<open>average\<close>: only the absence of
  \<open>average\<close> is signalled by an empty result. Otherwise, with a target date that
  \<^verbatim>\<open>datetime\<close> can represent, the body runs in the order of the source: a growth factor
  of \<open>average\<close> that overflows raises \<^verbatim>\<open>OverflowError\<close>; if it does not, a record
  without \<open>maximum\<close> raises \<^verbatim>\<open>KeyError('maximum')\<close>; with \<open>maximum\<close> and a growth
  factor of it that does not overflow, a record without \<open>minimum\<close> raises
  \<^verbatim>\<open>KeyError('minimum')\<close>. With the three rates present, no overflow and a current
  price other than zero, a full projection record is returned.
\<close>

theorem C3_empty_result_or_record:
  "(w < 1 \<or> map_of stats ''average'' = None \<longrightarrow>
      predict_future_week_price today cp stats w = Inr None) \<and>
   (1 \<le> w \<and> 0 < today \<and>
    today + w * 7 + (4 - weekday (today + w * 7)) mod 7 \<le> MAXORDINAL \<and>
    map_of stats ''average'' = Some a \<and> FLOAT_OVERFLOW \<le> \<bar>(1 + a / 100) ^ nat w\<bar> \<longrightarrow>
      predict_future_week_price today cp stats w = Inl OverflowError) \<and>
   (1 \<le> w \<and> 0 < today \<and>
    today + w * 7 + (4 - weekday (today + w * 7)) mod 7 \<le> MAXORDINAL \<and>
    map_of stats ''average'' = Some a \<and> \<bar>(1 + a / 100) ^ nat w\<bar> < FLOAT_OVERFLOW \<and>
    map_of stats ''maximum'' = None \<longrightarrow>
      predict_future_week_price today cp stats w = Inl (KeyError ''maximum'')) \<and>
   (1 \<le> w \<and> 0 < today \<and>
    today + w * 7 + (4 - weekday (today + w * 7)) mod 7 \<le> MAXORDINAL \<and>
    map_of stats ''average'' = Some a \<and> \<bar>(1 + a / 100) ^ nat w\<bar> < FLOAT_OVERFLOW \<and>
    map_of stats ''maximum'' = Some mx \<and> \<bar>(1 + mx / 100) ^ nat w\<bar> < FLOAT_OVERFLOW \<and>
    map_of stats ''minimum'' = None \<longrightarrow>
      predict_future_week_price today cp stats w = Inl (KeyError ''minimum'')) \<and>
   (1 \<le> w \<and> 0 < today \<and>
    today + w * 7 + (4 - weekday (today + w * 7)) mod 7 \<le> MAXORDINAL \<and>
    map_of stats ''average'' = Some a \<and> \<bar>(1 + a / 100) ^ nat w\<bar> < FLOAT_OVERFLOW \<and>
    map_of stats ''maximum'' = Some mx \<and> \<bar>(1 + mx / 100) ^ nat w\<bar> < FLOAT_OVERFLOW \<and>
    map_of stats ''minimum'' = Some mn \<and> \<bar>(1 + mn / 100) ^ nat w\<bar> < FLOAT_OVERFLOW \<and>
    cp \<noteq> 0 \<longrightarrow>
      (\<exists>r. predict_future_week_price today cp stats w = Inr (Some r) \<and>
           current_price r = cp \<and> weeks_ahead r = w \<and>
           weekly_avg_return r = a \<and> weekly_max_return r = mx \<and> weekly_min_return r = mn))"
proof (intro conjI impI)
  assume "w < 1 \<or> map_of stats ''average'' = None"
  then show "predict_future_week_price today cp stats w = Inr None"
    by (rule predict_guard)
next
  assume "1 \<le> w \<and> 0 < today \<and>
    today + w * 7 + (4 - weekday (today + w * 7)) mod 7 \<le> MAXORDINAL \<and>
    map_of stats ''average'' = Some a \<and> FLOAT_OVERFLOW \<le> \<bar>(1 + a / 100) ^ nat w\<bar>"
  then show "predict_future_week_price today cp stats w = Inl OverflowError"
    using predict_average_overflow [of w today stats a cp] by blast
next
  assume "1 \<le> w \<and> 0 < today \<and>
    today + w * 7 + (4 - weekday (today + w * 7)) mod 7 \<le> MAXORDINAL \<and>
    map_of stats ''average'' = Some a \<and> \<bar>(1 + a / 100) ^ nat w\<bar> < FLOAT_OVERFLOW \<and>
    map_of stats ''maximum'' = None"
  then show "predict_future_week_price today cp stats w = Inl (KeyError ''maximum'')"
    using predict_missing_maximum [of w today stats a cp] by blast
next
  assume "1 \<le> w \<and> 0 < today \<and>
    today + w * 7 + (4 - weekday (today + w * 7)) mod 7 \<le> MAXORDINAL \<and>
    map_of stats ''average'' = Some a \<and> \<bar>(1 + a / 100) ^ nat w\<bar> < FLOAT_OVERFLOW \<and>
    map_of stats ''maximum'' = Some mx \<and> \<bar>(1 + mx / 100) ^ nat w\<bar> < FLOAT_OVERFLOW \<and>
    map_of stats ''minimum'' = None"
  then show "predict_future_week_price today cp stats w = Inl (KeyError ''minimum'')"
    using predict_missing_minimum [of w today stats a mx cp] by blast
next
  assume h: "1 \<le> w \<and> 0 < today \<and>
    today + w * 7 + (4 - weekday (today + w * 7)) mod 7 \<le> MAXORDINAL \<and>
    map_of stats ''average'' = Some a \<and> \<bar>(1 + a / 100) ^ nat w\<bar> < FLOAT_OVERFLOW \<and>
    map_of stats ''maximum'' = Some mx \<and> \<bar>(1 + mx / 100) ^ nat w\<bar> < FLOAT_OVERFLOW \<and>
    map_of stats ''minimum'' = Some mn \<and> \<bar>(1 + mn / 100) ^ nat w\<bar> < FLOAT_OVERFLOW \<and>
    cp \<noteq> 0"
  have "predict_future_week_price today cp stats w = Inr (Some \<lparr>
      current_price = cp,
      expected_price = cp * (1 + a / 100) ^ nat w,
      optimistic_price = cp * (1 + mx / 100) ^ nat w,
      pessimistic_price = cp * (1 + mn / 100) ^ nat w,
      expected_change = ((cp * (1 + a / 100) ^ nat w) / cp - 1) * 100,
      optimistic_change = ((cp * (1 + mx / 100) ^ nat w) / cp - 1) * 100,
      pessimistic_change = ((cp * (1 + mn / 100) ^ nat w) / cp - 1) * 100,
      weeks_ahead = w,
      target_date = today + w * 7 + (4 - weekday (today + w * 7)) mod 7,
      target_date_str = strftime_B_d_Y (today + w * 7 + (4 - weekday (today + w * 7)) mod 7),
      weekly_avg_return = a,
      weekly_max_return = mx,
      weekly_min_return = mn \<rparr>)"
    using h by (intro predict_total) blast+
  then show "\<exists>r. predict_future_week_price today cp stats w = Inr (Some r) \<and>
           current_price r = cp \<and> weeks_ahead r = w \<and>
           weekly_avg_return r = a \<and> weekly_max_return r = mx \<and> weekly_min_return r = mn"
    by simp
qed

theorem C3_empty_result_or_record_witness:
  "predict_future_week_price 739924 100 [(''average'', 2), (''minimum'', -5), (''maximum'', 7)] 0
     = Inr None \<and>
   predict_future_week_price 739924 100 [(''minimum'', -5), (''maximum'', 7)] 4 = Inr None \<and>
   predict_future_week_price 739924 100 [(''average'', 200), (''minimum'', -5), (''maximum'', 7)]
     1000 = Inl OverflowError \<and>
   predict_future_week_price 739924 100 [(''average'', 2), (''minimum'', -5)] 4
     = Inl (KeyError ''maximum'') \<and>
   predict_future_week_price 739924 100 [(''average'', 2), (''maximum'', 7)] 4
     = Inl (KeyError ''minimum'') \<and>
   (\<exists>r. predict_future_week_price 739924 100
          [(''average'', 2), (''minimum'', -5), (''maximum'', 7)] 4 = Inr (Some r) \<and>
        current_price r = 100 \<and> weeks_ahead r = 4 \<and>
        weekly_avg_return r = 2 \<and> weekly_max_return r = 7 \<and> weekly_min_return r = - 5)"
proof -
  have r: "\<bar>(1 + 2 / 100 :: real) ^ nat 4\<bar> < FLOAT_OVERFLOW"
    "\<bar>(1 + 7 / 100 :: real) ^ nat 4\<bar> < FLOAT_OVERFLOW"
    "\<bar>(1 + (- 5) / 100 :: real) ^ nat 4\<bar> < FLOAT_OVERFLOW"
    by (rule float_pow_in_range; simp)+
  have "(2::real) ^ 1024 \<le> 3 ^ 1000"
    by simp
  then have o: "FLOAT_OVERFLOW \<le> \<bar>(1 + 200 / 100 :: real) ^ nat 1000\<bar>"
    unfolding FLOAT_OVERFLOW_def by simp
  show ?thesis
    using r o
      C3_empty_result_or_record [of 0 "[(''average'', 2), (''minimum'', -5), (''maximum'', 7)]"
        739924 100 2 7 "- 5"]
      C3_empty_result_or_record [of 4 "[(''minimum'', -5), (''maximum'', 7)]" 739924 100 2 7 "- 5"]
      C3_empty_result_or_record [of 1000
        "[(''average'', 200), (''minimum'', -5), (''maximum'', 7)]" 739924 100 200 7 "- 5"]
      C3_empty_result_or_record [of 4 "[(''average'', 2), (''minimum'', -5)]" 739924 100 2 7 "- 5"]
      C3_empty_result_or_record [of 4 "[(''average'', 2), (''maximum'', 7)]" 739924 100 2 7 "- 5"]
      C3_empty_result_or_record [of 4 "[(''average'', 2), (''minimum'', -5), (''maximum'', 7)]"
        739924 100 2 7 "- 5"]
    by (simp add: MAXORDINAL_def weekday_def)
qed

text \<open>
  The claim as stated fails on a statistics record that holds \<open>average\<close> alone: the
  lookup of \<open>maximum\<close> raises.
\<close>

theorem C3_missing_maximum_counterexample:
  "map_of [(''average'', 1::real)] ''maximum'' = None \<and>
   predict_future_week_price 739924 100 [(''average'', 1)] 1 = Inl (KeyError ''maximum'') \<and>
   predict_future_week_price 739924 100 [(''average'', 1)] 1 \<noteq> Inr None"
proof -
  have "predict_future_week_price 739924 100 [(''average'', 1)] 1 = Inl (KeyError ''maximum'')"
    by (rule predict_missing_maximum [where a = 1]; (rule float_pow_in_range)?;
        simp add: weekday_def MAXORDINAL_def)
  then show ?thesis by simp
qed

subsection \<open>Target date\<close>

text \<open>
  Claim C4, amended. For \<open>weeks_ahead \<ge> 1\<close>, a current price other than zero, a statistics
  record that holds \<open>average\<close>, \<open>maximum\<close> and \<open>minimum\<close> with growth factors that do not
  overflow, and every value of \<open>today\<close> from which the first Friday on or after
  \<open>today + weeks_ahead * 7\<close> days is a date that \<^verbatim>\<open>datetime\<close> can represent, a projection
  is returned whose target date is that Friday: its weekday is 4 (Monday being 0), it is
  not before \<open>today + weeks_ahead * 7\<close> days and less than a week after.
\<close>

theorem C4_target_is_friday:
  assumes "1 \<le> w" and "cp \<noteq> 0" and "0 < today"
    and "today + w * 7 + (4 - weekday (today + w * 7)) mod 7 \<le> MAXORDINAL"
    and "map_of stats ''average'' = Some a"
    and "map_of stats ''maximum'' = Some mx"
    and "map_of stats ''minimum'' = Some mn"
    and "\<bar>(1 + a / 100) ^ nat w\<bar> < FLOAT_OVERFLOW"
    and "\<bar>(1 + mx / 100) ^ nat w\<bar> < FLOAT_OVERFLOW"
    and "\<bar>(1 + mn / 100) ^ nat w\<bar> < FLOAT_OVERFLOW"
  shows "\<exists>r. predict_future_week_price today cp stats w = Inr (Some r) \<and>
           weekday (target_date r) = 4 \<and>
           today + w * 7 \<le> target_date r \<and> target_date r < today + w * 7 + 7"
  using predict_total [OF assms] weekday_next_friday [of "today + w * 7"]
    next_friday_bounds [of "today + w * 7"] by simp

theorem C4_target_is_friday_witness:
  "\<exists>r. predict_future_week_price 739924 100
          [(''average'', 2), (''minimum'', -5), (''maximum'', 7)] 4 = Inr (Some r) \<and>
       target_date r = 739954 \<and> weekday (target_date r) = 4 \<and>
       739924 + 4 * 7 \<le> target_date r \<and> target_date r < 739924 + 4 * 7 + 7"
proof -
  have "\<exists>r. predict_future_week_price 739924 100
          [(''average'', 2), (''minimum'', -5), (''maximum'', 7)] 4 = Inr (Some r) \<and>
           weekday (target_date r) = 4 \<and>
           739924 + 4 * 7 \<le> target_date r \<and> target_date r < 739924 + 4 * 7 + 7"
    by (rule C4_target_is_friday [where a = 2 and mx = 7 and mn = "- 5"];
        (rule float_pow_in_range)?; simp add: weekday_def MAXORDINAL_def)
  then show ?thesis
    using predict_run_4_weeks by auto
qed

text \<open>
  The claim as stated, for every record that holds \<open>average\<close> and every value of \<open>today\<close>,
  fails where no projection comes back: on 9999-12-31, day 3652059, the date a week ahead is
  out of the range of \<^verbatim>\<open>datetime\<close>, and a record that holds \<open>average\<close> alone raises
  \<^verbatim>\<open>KeyError\<close>.
\<close>

theorem C4_no_target_counterexample:
  "predict_future_week_price 3652059 100 [(''average'', 2), (''minimum'', -5), (''maximum'', 7)] 1
     = Inl OverflowError \<and>
   predict_future_week_price 739924 100 [(''average'', 2)] 1 = Inl (KeyError ''maximum'')"
proof -
  have "predict_future_week_price 3652059 100
          [(''average'', 2), (''minimum'', -5), (''maximum'', 7)] 1 = Inl OverflowError"
    by (rule predict_date_overflow) (simp_all add: weekday_def MAXORDINAL_def)
  moreover have "predict_future_week_price 739924 100 [(''average'', 2)] 1
      = Inl (KeyError ''maximum'')"
    by (rule predict_missing_maximum [where a = 2]; (rule float_pow_in_range)?;
        simp add: weekday_def MAXORDINAL_def)
  ultimately show ?thesis by simp
qed

subsection \<open>Scenario ordering\<close>




subsection \<open>The legacy entry point\<close>

text \<open>
  Claim C9. \<^const>\<open>predict_current_week_price\<close> returns exactly what
  \<^const>\<open>predict_future_week_price\<close> returns on the same arguments with \<open>weeks_ahead = 1\<close>,
  exceptions included.
\<close>

theorem C9_current_week_is_one_week_ahead:
  "predict_current_week_price today cp stats = predict_future_week_price today cp stats 1"
  by (simp add: predict_current_week_price_def)

theorem C9_current_week_is_one_week_ahead_witness:
  "predict_current_week_price 739924 100 [(''average'', 2), (''minimum'', -5), (''maximum'', 7)] =
     Inr (Some \<lparr> current_price = 100, expected_price = 102, optimistic_price = 107,
       pessimistic_price = 95, expected_change = 2, optimistic_change = 7,
       pessimistic_change = -5, weeks_ahead = 1, target_date = 739933,
       target_date_str = ''November 13, 2026'', weekly_avg_return = 2, weekly_max_return = 7,
       weekly_min_return = -5 \<rparr>) \<and>
   predict_current_week_price 739924 100 [(''average'', 2)] = Inl (KeyError ''maximum'') \<and>
   predict_current_week_price 739924 100 [] = Inr None"
proof -
  have "predict_future_week_price 739924 100 [(''average'', 2)] 1 = Inl (KeyError ''maximum'')"
    by (rule predict_missing_maximum [where a = 2]; (rule float_pow_in_range)?;
        simp add: weekday_def MAXORDINAL_def)
  moreover have "predict_future_week_price 739924 100 [] 1 = Inr None"
    by (rule predict_guard) simp
  ultimately show ?thesis
    using predict_run_1_week
      C9_current_week_is_one_week_ahead [of 739924 100
        "[(''average'', 2), (''minimum'', -5), (''maximum'', 7)]"]
      C9_current_week_is_one_week_ahead [of 739924 100 "[(''average'', 2)]"]
      C9_current_week_is_one_week_ahead [of 739924 100 "[]"]
    by simp
qed

section \<open>Properties of the statistics engine\<close>

lemma series_min_Min: "xs \<noteq> [] \<Longrightarrow> series_min xs = Min (set xs)"
  by (cases xs) (simp_all add: series_min_def Min.set_eq_fold [symmetric])

lemma series_max_Max: "xs \<noteq> [] \<Longrightarrow> series_max xs = Max (set xs)"
  by (cases xs) (simp_all add: series_max_def Max.set_eq_fold [symmetric])

lemma sum_squares_nonneg: "0 \<le> (\<Sum>x\<leftarrow>xs. (x - m) ^ 2 :: real)"
  by (rule sum_list_nonneg) auto

text \<open>
  Claim C8. For the empty sequence \<^const>\<open>calculate_statistics\<close> returns the empty record.
  For a sequence of \<open>n > 0\<close> returns it returns the five fields, where \<open>average\<close> is the
  sum divided by \<open>n\<close>, \<open>minimum\<close> and \<open>maximum\<close> are the least and the greatest element,
  \<open>count\<close> is \<open>n\<close>, and \<open>std_dev\<close> is NaN when \<open>n < 2\<close> and otherwise the square root,
  not negative, of the sum of the squared deviations from the average divided by \<open>n - 1\<close>.
\<close>

theorem C8_statistics_record:
  "calculate_statistics [] = [] \<and>
   (xs \<noteq> [] \<longrightarrow>
     (\<exists>sd. calculate_statistics xs =
         [(''average'', Float (sum_list xs / real (length xs))),
          (''minimum'', Float (Min (set xs))),
          (''maximum'', Float (Max (set xs))),
          (''std_dev'', sd),
          (''count'', Integer (int (length xs)))] \<and>
        (length xs < 2 \<longrightarrow> sd = NaN) \<and>
        (2 \<le> length xs \<longrightarrow>
           (\<exists>s. sd = Float s \<and> 0 \<le> s \<and>
                s ^ 2 = (\<Sum>x\<leftarrow>xs. (x - sum_list xs / real (length xs)) ^ 2)
                          / real (length xs - 1)))))"
proof (intro conjI impI)
  show "calculate_statistics [] = []"
    by (simp add: calculate_statistics_def)
next
  assume ne: "xs \<noteq> []"
  let ?v = "(\<Sum>x\<leftarrow>xs. (x - sum_list xs / real (length xs)) ^ 2) / real (length xs - 1)"
  have v: "0 \<le> ?v"
    using sum_squares_nonneg [of "sum_list xs / real (length xs)" xs] by simp
  have "calculate_statistics xs =
         [(''average'', Float (sum_list xs / real (length xs))),
          (''minimum'', Float (Min (set xs))),
          (''maximum'', Float (Max (set xs))),
          (''std_dev'', std xs),
          (''count'', Integer (int (length xs)))]"
    using ne by (simp add: calculate_statistics_def mean_def series_min_Min series_max_Max)
  moreover have "length xs < 2 \<longrightarrow> std xs = NaN"
    by (simp add: std_def)
  moreover have "2 \<le> length xs \<longrightarrow>
      (\<exists>s. std xs = Float s \<and> 0 \<le> s \<and> s ^ 2 = ?v)"
    using v by (auto simp add: std_def mean_def)
  ultimately show "\<exists>sd. calculate_statistics xs =
         [(''average'', Float (sum_list xs / real (length xs))),
          (''minimum'', Float (Min (set xs))),
          (''maximum'', Float (Max (set xs))),
          (''std_dev'', sd),
          (''count'', Integer (int (length xs)))] \<and>
        (length xs < 2 \<longrightarrow> sd = NaN) \<and>
        (2 \<le> length xs \<longrightarrow>
           (\<exists>s. sd = Float s \<and> 0 \<le> s \<and> s ^ 2 = ?v))"
    by blast
qed

theorem C8_statistics_record_witness:
  "(\<exists>s. calculate_statistics [0, 2, 4] =
         [(''average'', Float 2), (''minimum'', Float 0), (''maximum'', Float 4),
          (''std_dev'', Float s), (''count'', Integer 3)] \<and> 0 \<le> s \<and> s ^ 2 = 4) \<and>
   calculate_statistics [5] =
         [(''average'', Float 5), (''minimum'', Float 5), (''maximum'', Float 5),
          (''std_dev'', NaN), (''count'', Integer 1)]"
  using C8_statistics_record [of "[0, 2, 4]"] C8_statistics_record [of "[5]"]
  by auto

section \<open>Properties of the timeframe slicer\<close>

lemma series_max_filter:
  assumes "filter (\<lambda>(d, c). start \<le> d) data \<noteq> []"
  shows "series_max (map fst (filter (\<lambda>(d, c). start \<le> d) data)) = series_max (map fst data)"
proof -
  let ?f = "filter (\<lambda>(d, c). start \<le> d) data"
  have ne: "data \<noteq> []" using assms by auto
  obtain r where r: "r \<in> set ?f" using assms by (cases ?f) auto
  then have r1: "start \<le> fst r" "r \<in> set data" by auto
  define m where "m = Max (set (map fst data))"
  have m_in: "m \<in> set (map fst data)"
    unfolding m_def using ne by (intro Max_in) auto
  have m_ge: "\<And>d. d \<in> set (map fst data) \<Longrightarrow> d \<le> m"
    unfolding m_def by (intro Max_ge) auto
  have "fst r \<le> m" using r1(2) m_ge by auto
  then have "start \<le> m" using r1(1) by simp
  then have "m \<in> set (map fst ?f)" using m_in by auto
  moreover have "\<And>d. d \<in> set (map fst ?f) \<Longrightarrow> d \<le> m" using m_ge by auto
  ultimately have "Max (set (map fst ?f)) = m"
    by (intro Max_eqI) auto
  then show ?thesis
    using assms ne by (simp add: series_max_Max m_def)
qed

lemma get_timeframe_data_twice:
  "and_then (get_timeframe_data date_offset data years)
      (\<lambda>s. get_timeframe_data date_offset s years)
   = get_timeframe_data date_offset data years"
proof (cases "data = [] \<or> years = None")
  case True
  then show ?thesis
    by (auto simp add: get_timeframe_data_def and_then_def)
next
  case False
  then obtain y where y: "years = Some y" and ne: "data \<noteq> []" by auto
  show ?thesis
  proof (cases "date_offset (series_max (map fst data)) y")
    case (Inl e)
    then show ?thesis
      using ne by (simp add: get_timeframe_data_def and_then_def y)
  next
    case (Inr start)
    let ?f = "filter (\<lambda>(d, c). start \<le> d) data"
    have first: "get_timeframe_data date_offset data years = Inr ?f"
      using ne Inr by (simp add: get_timeframe_data_def and_then_def y)
    have "get_timeframe_data date_offset ?f years = Inr ?f"
    proof (cases "?f = []")
      case True
      then show ?thesis by (simp add: get_timeframe_data_def)
    next
      case nonempty: False
      have "filter (\<lambda>(d, c). start \<le> d) ?f = ?f" by simp
      then show ?thesis
        using nonempty Inr series_max_filter [OF nonempty]
        by (simp add: get_timeframe_data_def and_then_def y)
    qed
    then show ?thesis
      using first by (simp add: and_then_def)
  qed
qed

lemma sub_years_738904: "sub_years 738904 1 = Inr 738539"
  unfolding sub_years_def ord2ymd_def ymd2ord_def days_before_year_def days_before_month_def
    days_in_month_def is_leap_def Let_def
  by (simp add: upto.simps)

text \<open>
  Claim C7. With \<open>years = None\<close> the slicer returns its input unchanged, and slicing the
  result of a slice again with the same \<open>years\<close> gives the result of the first slice;
  when the subtraction of the years raises, both raise the same exception.
\<close>

theorem C7_slice_idempotent:
  "get_timeframe_data date_offset data None = Inr data \<and>
   and_then (get_timeframe_data date_offset data (Some y))
      (\<lambda>s. get_timeframe_data date_offset s (Some y))
   = get_timeframe_data date_offset data (Some y)"
  using get_timeframe_data_twice [of date_offset data "Some y"]
  by (simp add: get_timeframe_data_def)

theorem C7_slice_idempotent_witness:
  "get_timeframe_data sub_years [(738174, 90), (738539, 95), (738890, 100), (738904, 110)] None
     = Inr [(738174, 90), (738539, 95), (738890, 100), (738904, 110)] \<and>
   get_timeframe_data sub_years [(738174, 90), (738539, 95), (738890, 100), (738904, 110)] (Some 1)
     = Inr [(738539, 95), (738890, 100), (738904, 110)] \<and>
   get_timeframe_data sub_years [(738539, 95), (738890, 100), (738904, 110)] (Some 1)
     = Inr [(738539, 95), (738890, 100), (738904, 110)]"
proof -
  have "get_timeframe_data sub_years
      [(738174, 90), (738539, 95), (738890, 100), (738904, 110)] (Some 1)
     = Inr [(738539, 95), (738890, 100), (738904, 110)]"
    by (simp add: get_timeframe_data_def series_max_def sub_years_738904 and_then_def)
  then show ?thesis
    using C7_slice_idempotent [of sub_years
        "[(738174, 90), (738539, 95), (738890, 100), (738904, 110)]" 1]
    by (simp add: and_then_def)
qed

lemma filter_sorted_dropWhile:
  "sorted (map fst data) \<Longrightarrow>
     filter (\<lambda>(d, c). (start::int) \<le> d) data = dropWhile (\<lambda>(d, c). d < start) data"
proof (induction data)
  case Nil
  then show ?case by simp
next
  case (Cons r data)
  show ?case
  proof (cases "fst r < start")
    case True
    then show ?thesis using Cons by (auto simp add: case_prod_beta)
  next
    case False
    have "\<And>x. x \<in> set data \<Longrightarrow> start \<le> fst x"
      using Cons.prems False by auto
    then have "filter (\<lambda>x. start \<le> fst x) data = data"
      by (intro filter_True) auto
    then show ?thesis using False by (simp add: case_prod_beta)
  qed
qed

text \<open>
  Claim C10. For a frame sorted ascending by date the slicer returns a suffix of the
  frame: when the subtraction of the years gives the date \<open>start\<close>, the frame is a list of
  dropped rows followed by the returned rows, unchanged and in their order; the dropped
  rows are those before \<open>start\<close>, the returned rows those from \<open>start\<close> on, so that every
  dropped row precedes every returned one. Without \<open>years\<close> nothing is dropped; when the
  subtraction raises, so does the slicer.
\<close>

theorem C10_slice_is_suffix:
  assumes "sorted (map fst data)"
  shows "(\<exists>out. get_timeframe_data date_offset data None = Inr out \<and> out = data) \<and>
    (data \<noteq> [] \<and> date_offset (Max (fst ` set data)) y = Inl e \<longrightarrow>
       get_timeframe_data date_offset data (Some y) = Inl e) \<and>
    (data = [] \<or> date_offset (Max (fst ` set data)) y = Inr start \<longrightarrow>
       (\<exists>out dropped. get_timeframe_data date_offset data (Some y) = Inr out \<and>
          data = dropped @ out \<and> suffix out data \<and>
          out = filter (\<lambda>(d, c). start \<le> d) data \<and>
          (\<forall>(d, c) \<in> set dropped. d < start) \<and>
          (\<forall>(d, c) \<in> set out. start \<le> d) \<and>
          (\<forall>(d, c) \<in> set dropped. \<forall>(d', c') \<in> set out. d < d')))"
proof (intro conjI impI)
  show "\<exists>out. get_timeframe_data date_offset data None = Inr out \<and> out = data"
    by (simp add: get_timeframe_data_def)
next
  assume "data \<noteq> [] \<and> date_offset (Max (fst ` set data)) y = Inl e"
  then show "get_timeframe_data date_offset data (Some y) = Inl e"
    by (simp add: get_timeframe_data_def and_then_def series_max_Max)
next
  assume h: "data = [] \<or> date_offset (Max (fst ` set data)) y = Inr start"
  let ?out = "filter (\<lambda>(d, c). start \<le> d) data"
  let ?dropped = "takeWhile (\<lambda>(d, c). d < start) data"
  have out: "?out = dropWhile (\<lambda>(d, c). d < start) data"
    using assms by (rule filter_sorted_dropWhile)
  have 1: "get_timeframe_data date_offset data (Some y) = Inr ?out"
    using h by (auto simp add: get_timeframe_data_def and_then_def series_max_Max)
  have 2: "data = ?dropped @ ?out"
    unfolding out by simp
  then have 3: "suffix ?out data"
    unfolding suffix_def by blast
  have 4: "\<forall>(d, c) \<in> set ?dropped. d < start"
    using set_takeWhileD [of _ "\<lambda>(d, c). d < start" data] by auto
  have 5: "\<forall>(d, c) \<in> set ?out. start \<le> d"
    by auto
  have 6: "\<forall>(d, c) \<in> set ?dropped. \<forall>(d', c') \<in> set ?out. d < d'"
    using 4 5 by fastforce
  show "\<exists>out dropped. get_timeframe_data date_offset data (Some y) = Inr out \<and>
          data = dropped @ out \<and> suffix out data \<and>
          out = filter (\<lambda>(d, c). start \<le> d) data \<and>
          (\<forall>(d, c) \<in> set dropped. d < start) \<and>
          (\<forall>(d, c) \<in> set out. start \<le> d) \<and>
          (\<forall>(d, c) \<in> set dropped. \<forall>(d', c') \<in> set out. d < d')"
    using 1 2 3 4 5 6 by blast
qed

theorem C10_slice_is_suffix_witness:
  "sorted (map fst [(738174 :: int, 90), (738539, 95), (738890, 100), (738904, 110 :: real)]) \<and>
   sub_years (Max (fst ` set [(738174 :: int, 90), (738539, 95), (738890, 100), (738904, 110 :: real)])) 1
     = Inr 738539 \<and>
   get_timeframe_data sub_years [(738174, 90), (738539, 95), (738890, 100), (738904, 110)] (Some 1)
     = Inr [(738539, 95), (738890, 100), (738904, 110)] \<and>
   [(738174 :: int, 90), (738539, 95), (738890, 100), (738904, 110 :: real)]
     = [(738174, 90)] @ [(738539, 95), (738890, 100), (738904, 110)] \<and>
   suffix [(738539 :: int, 95), (738890, 100), (738904, 110 :: real)]
     [(738174, 90), (738539, 95), (738890, 100), (738904, 110)]"
proof -
  have s: "sorted (map fst [(738174 :: int, 90), (738539, 95), (738890, 100), (738904, 110 :: real)])"
    by simp
  have m: "sub_years
      (Max (fst ` set [(738174 :: int, 90), (738539, 95), (738890, 100), (738904, 110 :: real)])) 1
     = Inr 738539"
    by (simp add: sub_years_738904)
  show ?thesis
    using s m C10_slice_is_suffix [OF s, of sub_years 1 _ 738539]
    by auto
qed

end
